theory Spec2Isabelle
  imports Main "HOL-Library.Word"
begin

section \<open>JavaScript strings\<close>

text \<open>
  A JavaScript string is a sequence of UTF-16 code units; \<open>length\<close> and a regular
  expression without the \<open>u\<close> flag both count code units. A character outside the
  Basic Multilingual Plane is two code units (a surrogate pair), none of them ASCII.
\<close>

type_synonym code_unit = "16 word"
type_synonym jsstring = "code_unit list"

definition cu :: "char \<Rightarrow> code_unit" where
  "cu c = of_nat (of_char c)"

definition utf16 :: "string \<Rightarrow> jsstring" where
  "utf16 s = map cu s"

section \<open>The regular expression of the label check\<close>

text \<open>
  The fragment of the regular expression syntax that \<open>/^[a-zA-Z0-9_]{1,63}$/\<close> uses:
  the assertions \<open>^\<close> and \<open>$\<close> (no \<open>m\<close> flag: start and end of the whole input) and
  a character class under a bounded quantifier \<open>{min,max}\<close>.
\<close>

datatype class_item = ClassRange code_unit code_unit | ClassChar code_unit

datatype regex_term =
    AssertStart
  | AssertEnd
  | Quantified "class_item list" nat nat

fun class_item_matches :: "class_item \<Rightarrow> code_unit \<Rightarrow> bool" where
  "class_item_matches (ClassRange lo hi) c = (lo \<le> c \<and> c \<le> hi)"
| "class_item_matches (ClassChar d) c = (c = d)"

definition class_matches :: "class_item list \<Rightarrow> code_unit \<Rightarrow> bool" where
  "class_matches items c = list_ex (\<lambda>it. class_item_matches it c) items"

text \<open>
  Backtracking matcher: \<open>match_from ts i rest\<close> tries to match the terms \<open>ts\<close> at
  index \<open>i\<close> of the input, \<open>rest\<close> being the input from index \<open>i\<close> on. The quantifier is
  greedy: it takes one more code unit when it can, and gives up on the class once the
  minimum is reached.
\<close>

fun match_from :: "regex_term list \<Rightarrow> nat \<Rightarrow> jsstring \<Rightarrow> bool" where
  "match_from [] i rest = True"
| "match_from (AssertStart # ts) i rest = (i = 0 \<and> match_from ts i rest)"
| "match_from (AssertEnd # ts) i rest = (rest = [] \<and> match_from ts i rest)"
| "match_from (Quantified items lo hi # ts) i [] = (lo = 0 \<and> match_from ts i [])"
| "match_from (Quantified items lo hi # ts) i (c # cs) =
     ((0 < hi \<and> class_matches items c
        \<and> match_from (Quantified items (lo - 1) (hi - 1) # ts) (Suc i) cs)
      \<or> (lo = 0 \<and> match_from ts i (c # cs)))"

text \<open>
  \<open>RegExp.prototype.test\<close> of a regular expression without the \<open>g\<close> and \<open>y\<close> flags:
  the search starts at index 0 and tries every start index up to the length of the input;
  no state is kept between calls.
\<close>

definition regex_test :: "regex_term list \<Rightarrow> jsstring \<Rightarrow> bool" where
  "regex_test ts s = list_ex (\<lambda>k. match_from ts k (drop k s)) [0..<Suc (length s)]"

text \<open>\<^verbatim>\<open>const regexCheck = /^[a-zA-Z0-9_]{1,63}$/;\<close>\<close>

definition regexCheck :: "regex_term list" where
  "regexCheck =
     [AssertStart,
      Quantified [ClassRange (cu CHR ''a'') (cu CHR ''z''),
                  ClassRange (cu CHR ''A'') (cu CHR ''Z''),
                  ClassRange (cu CHR ''0'') (cu CHR ''9''),
                  ClassChar (cu CHR ''_'')] 1 63,
      AssertEnd]"

text \<open>
  The pattern in the words of the specification: 1 to 63 characters, each an ASCII
  letter, a digit or the underscore.
\<close>

definition spec_label_char :: "code_unit \<Rightarrow> bool" where
  "spec_label_char c =
     ((0x61 \<le> c \<and> c \<le> 0x7A) \<or> (0x41 \<le> c \<and> c \<le> 0x5A) \<or> (0x30 \<le> c \<and> c \<le> 0x39) \<or> c = 0x5F)"

definition spec_label_ok :: "jsstring \<Rightarrow> bool" where
  "spec_label_ok s = (1 \<le> length s \<and> length s \<le> 63 \<and> list_all spec_label_char s)"

section \<open>The component: what it reads\<close>

text \<open>
  The fields of the query editor that the component reads (\<open>query.name\<close>,
  \<open>query.description\<close>); \<open>None\<close> is JavaScript's \<open>undefined\<close>.
\<close>

record query =
  query_name :: "jsstring option"
  query_description :: "jsstring option"

text \<open>
  The props the component uses. A callback is a transformer of the world \<open>'w\<close> outside
  the component (the parent's state, the network, the console). \<open>runQueryModel\<close> is
  called with a boolean argument by \<open>onClickModel\<close>.
\<close>

record 'w props =
  visible :: bool
  onHide :: "'w \<Rightarrow> 'w"
  runQueryModel :: "bool \<Rightarrow> 'w \<Rightarrow> 'w"
  handleMaterializationNum :: "int \<Rightarrow> 'w \<Rightarrow> 'w"
  allowAsync :: bool
  handleDescription :: "jsstring \<Rightarrow> 'w \<Rightarrow> 'w"
  handleModelName :: "jsstring \<Rightarrow> 'w \<Rightarrow> 'w"

text \<open>
  JavaScript's \<open>a || b\<close> on values that are a string or \<open>undefined\<close>: \<open>a\<close> when it is
  truthy (defined and not the empty string), else \<open>b\<close>.
\<close>

definition truthy :: "jsstring option \<Rightarrow> bool" where
  "truthy a = (case a of None \<Rightarrow> False | Some s \<Rightarrow> s \<noteq> [])"

definition js_or :: "jsstring option \<Rightarrow> jsstring option \<Rightarrow> jsstring option" where
  "js_or a b = (if truthy a then a else b)"

definition js_or_string :: "jsstring option \<Rightarrow> jsstring \<Rightarrow> jsstring" where
  "js_or_string a b = (case a of None \<Rightarrow> b | Some s \<Rightarrow> if s \<noteq> [] then s else b)"

text \<open>
  \<^verbatim>\<open>const defaultLabel = query.name || query.description || t('Undefined');\<close>
  The translation function \<open>t\<close> of the host application is a parameter.
\<close>

definition defaultLabel :: "(jsstring \<Rightarrow> jsstring) \<Rightarrow> query \<Rightarrow> jsstring" where
  "defaultLabel t q =
     js_or_string (js_or (query_name q) (query_description q)) (t (utf16 ''Undefined''))"

section \<open>The validated variant (SaveDataModelModal/index.tsx)\<close>

text \<open>The \<open>useState\<close> cells. The variant without validation has the first three only.\<close>

record form_state =
  label :: jsstring
  description :: jsstring
  materializationNumRadio :: int

record gated_state = form_state +
  isDisabled :: bool

text \<open>The initial values of the \<open>useState\<close> cells, at the first render.\<close>

definition mount :: "(jsstring \<Rightarrow> jsstring) \<Rightarrow> query \<Rightarrow> gated_state" where
  "mount t q =
     \<lparr>label = defaultLabel t q,
      description = js_or_string (query_description q) [],
      materializationNumRadio = 1,
      isDisabled = True\<rparr>"

text \<open>
  \<open>onClickModel\<close>: the second parameter has the default value \<open>() => undefined\<close>,
  used when the argument is \<open>undefined\<close> (\<open>None\<close>).
\<close>

definition onClickModel :: "bool \<Rightarrow> (bool \<Rightarrow> 'w \<Rightarrow> 'w) option \<Rightarrow> 'w \<Rightarrow> 'w" where
  "onClickModel async rqm w =
     (let run = (case rqm of None \<Rightarrow> (\<lambda>c w. w) | Some f \<Rightarrow> f)
      in if async then run True w else run False w)"

definition onLabelChange ::
  "'w props \<Rightarrow> jsstring \<Rightarrow> gated_state \<Rightarrow> 'w \<Rightarrow> gated_state \<times> 'w" where
  "onLabelChange p v st w =
     (let st = st\<lparr>label := v\<rparr>;
          w = handleModelName p v w;
          st = st\<lparr>isDisabled := \<not> regex_test regexCheck v\<rparr>
      in (st, w))"

definition onDescriptionChange ::
  "'w props \<Rightarrow> jsstring \<Rightarrow> gated_state \<Rightarrow> 'w \<Rightarrow> gated_state \<times> 'w" where
  "onDescriptionChange p v st w =
     (let st = st\<lparr>description := v\<rparr>;
          w = handleDescription p v w
      in (st, w))"

definition handleMaterializationNumRadio ::
  "'w props \<Rightarrow> int \<Rightarrow> gated_state \<Rightarrow> 'w \<Rightarrow> gated_state \<times> 'w" where
  "handleMaterializationNumRadio p n st w =
     (let w = handleMaterializationNum p n w;
          st = st\<lparr>materializationNumRadio := n\<rparr>
      in (st, w))"

text \<open>The \<open>onClick\<close> of the footer button: \<open>onClickModel(allowAsync, runQueryModel); onHide();\<close>\<close>

definition onClick :: "'w props \<Rightarrow> gated_state \<Rightarrow> 'w \<Rightarrow> gated_state \<times> 'w" where
  "onClick p st w =
     (let w = onClickModel (allowAsync p) (Some (runQueryModel p)) w;
          w = onHide p w
      in (st, w))"

text \<open>The radios of the \<open>Radio.Group\<close>: the value and the text (before translation).\<close>

definition radios :: "(int \<times> string) list" where
  "radios = [(1, ''Table''), (2, ''View''), (3, ''Incremental'')]"

text \<open>What the component renders from its props and state.\<close>

record view =
  modal_show :: bool
  modal_title :: jsstring
  submit_text :: jsstring
  submit_disabled :: bool
  input_value :: jsstring
  radio_options :: "(int \<times> jsstring) list"
  radio_value :: int
  textarea_value :: jsstring

definition render :: "(jsstring \<Rightarrow> jsstring) \<Rightarrow> 'w props \<Rightarrow> gated_state \<Rightarrow> view" where
  "render t p st =
     \<lparr>modal_show = visible p,
      modal_title = t (utf16 (''Save as dbt'' @ [CHR 0x27] @ ''s Model'')),
      submit_text = t (utf16 ''Save as Model''),
      submit_disabled = isDisabled st,
      input_value = label st,
      radio_options = map (\<lambda>(v, l). (v, t (utf16 l))) radios,
      radio_value = materializationNumRadio st,
      textarea_value = description st\<rparr>"

text \<open>
  The events the rendered dialog can deliver. \<open>RadioChange k\<close> is the change event of
  the radio whose value is the number \<open>k\<close> (\<open>Number(e.target.value)\<close> is that number);
  \<open>ModalHide\<close> is the dialog's own close control, wired to \<open>onHide\<close>.
\<close>

datatype event =
    LabelChange jsstring
  | DescriptionChange jsstring
  | RadioChange int
  | SubmitClick
  | ModalHide

text \<open>
  Modelled from the spec: the \<open>Button\<close> and \<open>Radio\<close> components are not part of the
  sources. A disabled submit action does not run its \<open>onClick\<close>, and a change event
  comes only from a radio that is rendered.
\<close>

fun step :: "'w props \<Rightarrow> event \<Rightarrow> gated_state \<times> 'w \<Rightarrow> gated_state \<times> 'w" where
  "step p (LabelChange v) (st, w) = onLabelChange p v st w"
| "step p (DescriptionChange v) (st, w) = onDescriptionChange p v st w"
| "step p (RadioChange k) (st, w) =
     (if k \<in> set (map fst radios) then handleMaterializationNumRadio p k st w else (st, w))"
| "step p SubmitClick (st, w) = (if isDisabled st then (st, w) else onClick p st w)"
| "step p ModalHide (st, w) = (st, onHide p w)"

fun steps :: "'w props \<Rightarrow> event list \<Rightarrow> gated_state \<times> 'w \<Rightarrow> gated_state \<times> 'w" where
  "steps p [] sw = sw"
| "steps p (ev # evs) sw = steps p evs (step p ev sw)"

section \<open>The variant without validation (part 000)\<close>

text \<open>
  The second source file declares the same names; they carry the suffix \<open>_p0\<close> here.
  \<open>console.log\<close> is a parameter \<open>log\<close>, a transformer of the world like the callbacks.
\<close>

datatype log_arg = LogString jsstring | LogNumber int

definition mount_p0 :: "(jsstring \<Rightarrow> jsstring) \<Rightarrow> query \<Rightarrow> form_state" where
  "mount_p0 t q =
     \<lparr>label = defaultLabel t q,
      description = js_or_string (query_description q) [],
      materializationNumRadio = 1\<rparr>"

definition onClickModel_p0 ::
  "(log_arg \<Rightarrow> 'w \<Rightarrow> 'w) \<Rightarrow> bool \<Rightarrow> (bool \<Rightarrow> 'w \<Rightarrow> 'w) option \<Rightarrow> 'w \<Rightarrow> 'w" where
  "onClickModel_p0 log async rqm w =
     (let run = (case rqm of None \<Rightarrow> (\<lambda>c w. w) | Some f \<Rightarrow> f);
          w = log (LogString (utf16 ''run query model click'')) w
      in if async then run True w else run False w)"

definition onLabelChange_p0 ::
  "'w props \<Rightarrow> jsstring \<Rightarrow> form_state \<Rightarrow> 'w \<Rightarrow> form_state \<times> 'w" where
  "onLabelChange_p0 p v st w =
     (let st = st\<lparr>label := v\<rparr>;
          w = handleModelName p v w
      in (st, w))"

definition onDescriptionChange_p0 ::
  "'w props \<Rightarrow> jsstring \<Rightarrow> form_state \<Rightarrow> 'w \<Rightarrow> form_state \<times> 'w" where
  "onDescriptionChange_p0 p v st w =
     (let st = st\<lparr>description := v\<rparr>;
          w = handleDescription p v w
      in (st, w))"

definition handleMaterializationNumRadio_p0 ::
  "(log_arg \<Rightarrow> 'w \<Rightarrow> 'w) \<Rightarrow> 'w props \<Rightarrow> int \<Rightarrow> form_state \<Rightarrow> 'w \<Rightarrow> form_state \<times> 'w" where
  "handleMaterializationNumRadio_p0 log p n st w =
     (let w = handleMaterializationNum p n w;
          st = st\<lparr>materializationNumRadio := n\<rparr>;
          w = log (LogString (utf16 ''materialize num radio'')) w;
          w = log (LogNumber n) w
      in (st, w))"

definition onClick_p0 ::
  "(log_arg \<Rightarrow> 'w \<Rightarrow> 'w) \<Rightarrow> 'w props \<Rightarrow> form_state \<Rightarrow> 'w \<Rightarrow> form_state \<times> 'w" where
  "onClick_p0 log p st w =
     (let w = onClickModel_p0 log (allowAsync p) (Some (runQueryModel p)) w;
          w = onHide p w
      in (st, w))"

definition radios_p0 :: "(int \<times> string) list" where
  "radios_p0 = [(1, ''Table''), (2, ''View''), (3, ''Incremental''), (4, ''Ephemereal'')]"

text \<open>The button of this variant has no \<open>disabled\<close> prop.\<close>

definition render_p0 :: "(jsstring \<Rightarrow> jsstring) \<Rightarrow> 'w props \<Rightarrow> form_state \<Rightarrow> view" where
  "render_p0 t p st =
     \<lparr>modal_show = visible p,
      modal_title = t (utf16 (''Save as dbt'' @ [CHR 0x27] @ ''s Model'')),
      submit_text = t (utf16 ''Save as Model''),
      submit_disabled = False,
      input_value = label st,
      radio_options = map (\<lambda>(v, l). (v, t (utf16 l))) radios_p0,
      radio_value = materializationNumRadio st,
      textarea_value = description st\<rparr>"

text \<open>
  Modelled from the spec: as for \<open>step\<close>, a change event comes only from a radio that
  is rendered. The button of this variant is never disabled, so every click runs its
  \<open>onClick\<close>.
\<close>

fun step_p0 ::
  "(log_arg \<Rightarrow> 'w \<Rightarrow> 'w) \<Rightarrow> 'w props \<Rightarrow> event \<Rightarrow> form_state \<times> 'w \<Rightarrow> form_state \<times> 'w" where
  "step_p0 log p (LabelChange v) (st, w) = onLabelChange_p0 p v st w"
| "step_p0 log p (DescriptionChange v) (st, w) = onDescriptionChange_p0 p v st w"
| "step_p0 log p (RadioChange k) (st, w) =
     (if k \<in> set (map fst radios_p0) then handleMaterializationNumRadio_p0 log p k st w
      else (st, w))"
| "step_p0 log p SubmitClick (st, w) = onClick_p0 log p st w"
| "step_p0 log p ModalHide (st, w) = (st, onHide p w)"

fun steps_p0 ::
  "(log_arg \<Rightarrow> 'w \<Rightarrow> 'w) \<Rightarrow> 'w props \<Rightarrow> event list \<Rightarrow> form_state \<times> 'w \<Rightarrow> form_state \<times> 'w" where
  "steps_p0 log p [] sw = sw"
| "steps_p0 log p (ev # evs) sw = steps_p0 log p evs (step_p0 log p ev sw)"

subsection \<open>The dataset update helper\<close>

datatype json =
    JNull
  | JBool bool
  | JNumber int
  | JString jsstring
  | JArray "json list"
  | JObject "(jsstring \<times> json) list"

record request =
  endpoint :: jsstring
  headers :: "(jsstring \<times> jsstring) list"
  body :: jsstring

record response =
  response_json :: "(jsstring \<times> json) list"

text \<open>
  \<open>updateDataset\<close>. The client's \<open>SupersetClient.put\<close> is the parameter \<open>put\<close>: it
  changes the world and resolves to a response (\<open>Inr\<close>) or rejects with an error
  (\<open>Inl\<close>); \<open>await\<close> on a rejected promise rejects the caller's promise with the same
  error. The conversion of a number in a template literal and \<open>JSON.stringify\<close> are the
  parameters \<open>num_string\<close> and \<open>stringify\<close>. A property that an object lacks reads as
  \<open>undefined\<close> (\<open>None\<close>).
\<close>

definition updateDataset ::
  "(request \<Rightarrow> 'w \<Rightarrow> ('e + response) \<times> 'w) \<Rightarrow> (int \<Rightarrow> jsstring) \<Rightarrow> (json \<Rightarrow> jsstring)
     \<Rightarrow> int \<Rightarrow> int \<Rightarrow> jsstring \<Rightarrow> json list \<Rightarrow> int list \<Rightarrow> bool
     \<Rightarrow> 'w \<Rightarrow> ('e + json option) \<times> 'w" where
  "updateDataset put num_string stringify dbId datasetId sql columns owners overrideColumns w =
     (let endpoint = utf16 ''api/v1/dataset/'' @ num_string datasetId
                       @ utf16 ''?override_columns=''
                       @ utf16 (if overrideColumns then ''true'' else ''false'');
          headers = [(utf16 ''Content-Type'', utf16 ''application/json'')];
          body = stringify (JObject
                   [(utf16 ''sql'', JString sql),
                    (utf16 ''columns'', JArray columns),
                    (utf16 ''owners'', JArray (map JNumber owners)),
                    (utf16 ''database_id'', JNumber dbId)])
      in case put \<lparr>endpoint = endpoint, headers = headers, body = body\<rparr> w of
           (Inl err, w') \<Rightarrow> (Inl err, w')
         | (Inr data, w') \<Rightarrow> (Inr (map_of (response_json data) (utf16 ''result'')), w'))"

section \<open>Recording callbacks\<close>

text \<open>
  To count calls and to order them, the world is the list of the calls made so far, and
  every callback appends its own call, as a mock function in a test does.
\<close>

datatype call =
    RunQueryModel bool
  | OnHide
  | HandleMaterializationNum int
  | HandleDescription jsstring
  | HandleModelName jsstring
  | ConsoleLog log_arg

definition recording :: "bool \<Rightarrow> call list props" where
  "recording async =
     \<lparr>visible = True,
      onHide = (\<lambda>w. w @ [OnHide]),
      runQueryModel = (\<lambda>c w. w @ [RunQueryModel c]),
      handleMaterializationNum = (\<lambda>n w. w @ [HandleMaterializationNum n]),
      allowAsync = async,
      handleDescription = (\<lambda>s w. w @ [HandleDescription s]),
      handleModelName = (\<lambda>s w. w @ [HandleModelName s])\<rparr>"

definition recording_log :: "log_arg \<Rightarrow> call list \<Rightarrow> call list" where
  "recording_log a w = w @ [ConsoleLog a]"

fun is_materialization_call :: "call \<Rightarrow> bool" where
  "is_materialization_call (HandleMaterializationNum n) = True"
| "is_materialization_call c = False"

fun is_console_log :: "call \<Rightarrow> bool" where
  "is_console_log (ConsoleLog a) = True"
| "is_console_log c = False"

text \<open>A client that records each request and answers every one with \<open>r\<close>.\<close>

definition recording_put ::
  "('e + response) \<Rightarrow> request \<Rightarrow> request list \<Rightarrow> ('e + response) \<times> request list" where
  "recording_put r req log = (r, log @ [req])"

section \<open>Lemmas on the matcher\<close>

lemma cu_values:
  "cu CHR ''a'' = 0x61" "cu CHR ''z'' = 0x7A" "cu CHR ''A'' = 0x41" "cu CHR ''Z'' = 0x5A"
  "cu CHR ''0'' = 0x30" "cu CHR ''9'' = 0x39" "cu CHR ''_'' = 0x5F"
  by (simp_all add: cu_def)

lemma quantified_to_end:
  "match_from [Quantified items lo hi, AssertEnd] i s
     = (lo \<le> length s \<and> length s \<le> hi \<and> list_all (class_matches items) s)"
proof (induction s arbitrary: lo hi i)
  case Nil
  show ?case by simp
next
  case (Cons c cs)
  have "match_from [Quantified items lo hi, AssertEnd] i (c # cs)
      = (0 < hi \<and> class_matches items c
            \<and> lo - 1 \<le> length cs \<and> length cs \<le> hi - 1 \<and> list_all (class_matches items) cs)"
    by (simp add: Cons.IH)
  also have "\<dots> = (lo \<le> length (c # cs) \<and> length (c # cs) \<le> hi
            \<and> list_all (class_matches items) (c # cs))"
    by (cases hi) auto
  finally show ?case .
qed

lemma regexCheck_from:
  "match_from regexCheck k rest
     = (k = 0 \<and> 1 \<le> length rest \<and> length rest \<le> 63 \<and> list_all spec_label_char rest)"
proof -
  have "class_matches [ClassRange (cu CHR ''a'') (cu CHR ''z''),
                  ClassRange (cu CHR ''A'') (cu CHR ''Z''),
                  ClassRange (cu CHR ''0'') (cu CHR ''9''),
                  ClassChar (cu CHR ''_'')] = spec_label_char"
    by (rule ext) (simp add: class_matches_def spec_label_char_def cu_values)
  then show ?thesis
    by (simp add: regexCheck_def quantified_to_end)
qed

lemma regexCheck_test: "regex_test regexCheck s = spec_label_ok s"
proof -
  have "regex_test regexCheck s = (\<exists>k \<in> set [0..<Suc (length s)]. match_from regexCheck k (drop k s))"
    by (simp add: regex_test_def list_ex_iff)
  also have "\<dots> = match_from regexCheck 0 (drop 0 s)"
    by (auto simp: regexCheck_from)
  also have "\<dots> = spec_label_ok s"
    by (simp add: regexCheck_from spec_label_ok_def)
  finally show ?thesis .
qed

section \<open>The label check and the submit button\<close>

text \<open>
  C1. In the validated variant a label change sets the submit button's state from the
  test of the new label against \<open>regexCheck\<close>, whatever the state was before: a label of
  1 to 63 code units, each an ASCII letter, a digit or the underscore, enables the
  button; an empty label, a label longer than 63, or one with any other code unit
  disables it.
\<close>

theorem label_change_gates_submit:
  "(1 \<le> length v \<and> length v \<le> 63 \<and> (\<forall>c \<in> set v. spec_label_char c)
      \<longrightarrow> \<not> isDisabled (fst (step p (LabelChange v) (st, w)))
        \<and> \<not> submit_disabled (render t p (fst (step p (LabelChange v) (st, w)))))
   \<and> (v = [] \<or> 63 < length v \<or> (\<exists>c \<in> set v. \<not> spec_label_char c)
      \<longrightarrow> isDisabled (fst (step p (LabelChange v) (st, w)))
        \<and> submit_disabled (render t p (fst (step p (LabelChange v) (st, w)))))
   \<and> isDisabled (fst (onLabelChange p v st w)) = (\<not> regex_test regexCheck v)"
proof -
  have ok: "regex_test regexCheck v
      = (1 \<le> length v \<and> length v \<le> 63 \<and> (\<forall>c \<in> set v. spec_label_char c))"
    by (simp add: regexCheck_test spec_label_ok_def list_all_iff)
  have dis: "isDisabled (fst (onLabelChange p v st w)) = (\<not> regex_test regexCheck v)"
    by (simp add: onLabelChange_def)
  have "v = [] \<or> 63 < length v \<or> (\<exists>c \<in> set v. \<not> spec_label_char c)
      \<Longrightarrow> \<not> regex_test regexCheck v"
    by (auto simp: ok)
  then show ?thesis
    using dis by (auto simp: render_def ok)
qed

theorem label_change_gates_submit_witness:
  "\<not> isDisabled (fst (step (recording True) (LabelChange (utf16 ''model_1'')) (mount id \<lparr>query_name = None, query_description = None\<rparr>, [])))
   \<and> isDisabled (fst (step (recording True) (LabelChange (utf16 ''model-1'')) (mount id \<lparr>query_name = None, query_description = None\<rparr>, [])))
   \<and> isDisabled (fst (step (recording True) (LabelChange (replicate 64 (cu CHR ''a''))) (mount id \<lparr>query_name = None, query_description = None\<rparr>, [])))"
proof -
  have a: "1 \<le> length (utf16 ''model_1'') \<and> length (utf16 ''model_1'') \<le> 63
      \<and> (\<forall>c \<in> set (utf16 ''model_1''). spec_label_char c)"
    by (simp add: utf16_def cu_def spec_label_char_def)
  have b: "\<exists>c \<in> set (utf16 ''model-1''). \<not> spec_label_char c"
    by (simp add: utf16_def cu_def spec_label_char_def)
  have c: "63 < length (replicate 64 (cu CHR ''a''))"
    by simp
  show ?thesis
    using a b c
      label_change_gates_submit [of "utf16 ''model_1''" "recording True" "mount id \<lparr>query_name = None, query_description = None\<rparr>" "[]" id]
      label_change_gates_submit [of "utf16 ''model-1''" "recording True" "mount id \<lparr>query_name = None, query_description = None\<rparr>" "[]" id]
      label_change_gates_submit [of "replicate 64 (cu CHR ''a'')" "recording True" "mount id \<lparr>query_name = None, query_description = None\<rparr>" "[]" id]
    by blast
qed

section \<open>Submit\<close>

text \<open>
  C2. The \<open>onClick\<close> of the submit button calls \<open>runQueryModel\<close> once, with the value
  of \<open>allowAsync\<close>, and then \<open>onHide\<close> once; the state cells are not touched. With
  recording callbacks the calls added are exactly \<open>runQueryModel(flag)\<close> followed by
  \<open>onHide()\<close>, for either value of the flag; the variant without validation makes the
  same two calls, after its \<open>console.log\<close>. A click runs \<open>onClick\<close> when the button
  is enabled.
\<close>

theorem submit_runs_then_hides:
  "onClick p st w = (st, onHide p (runQueryModel p (allowAsync p) w))
   \<and> snd (onClick (recording async) st calls) = calls @ [RunQueryModel async, OnHide]
   \<and> snd (onClick (recording True) st calls) = calls @ [RunQueryModel True, OnHide]
   \<and> snd (onClick (recording False) st calls) = calls @ [RunQueryModel False, OnHide]
   \<and> filter (\<lambda>c. \<not> is_console_log c) (snd (onClick_p0 recording_log (recording async) st0 []))
       = [RunQueryModel async, OnHide]
   \<and> (\<not> isDisabled st \<longrightarrow> step p SubmitClick (st, w) = onClick p st w)
   \<and> step_p0 log p SubmitClick (st0, w) = onClick_p0 log p st0 w"
  by (simp add: onClick_def onClickModel_def onClick_p0_def onClickModel_p0_def recording_def
      recording_log_def Let_def)

theorem submit_runs_then_hides_witness:
  "\<not> isDisabled ((mount id \<lparr>query_name = None, query_description = None\<rparr>)\<lparr>isDisabled := False\<rparr>)
   \<and> snd (step (recording True) SubmitClick
          ((mount id \<lparr>query_name = None, query_description = None\<rparr>)\<lparr>isDisabled := False\<rparr>, []))
       = [RunQueryModel True, OnHide]
   \<and> snd (step (recording False) SubmitClick
          ((mount id \<lparr>query_name = None, query_description = None\<rparr>)\<lparr>isDisabled := False\<rparr>, []))
       = [RunQueryModel False, OnHide]"
proof -
  have en: "\<not> isDisabled ((mount id \<lparr>query_name = None, query_description = None\<rparr>)\<lparr>isDisabled := False\<rparr>)"
    by simp
  have a: "snd (step (recording True) SubmitClick
          ((mount id \<lparr>query_name = None, query_description = None\<rparr>)\<lparr>isDisabled := False\<rparr>, []))
       = [] @ [RunQueryModel True, OnHide]"
    using en submit_runs_then_hides [where p = "recording True" and async = True and calls = "[]"
        and w = "[]" and log = recording_log
        and st = "(mount id \<lparr>query_name = None, query_description = None\<rparr>)\<lparr>isDisabled := False\<rparr>"
        and ?st0.0 = "mount_p0 id \<lparr>query_name = None, query_description = None\<rparr>"]
    by (simp add: recording_def)
  have b: "snd (step (recording False) SubmitClick
          ((mount id \<lparr>query_name = None, query_description = None\<rparr>)\<lparr>isDisabled := False\<rparr>, []))
       = [] @ [RunQueryModel False, OnHide]"
    using en submit_runs_then_hides [where p = "recording False" and async = False and calls = "[]"
        and w = "[]" and log = recording_log
        and st = "(mount id \<lparr>query_name = None, query_description = None\<rparr>)\<lparr>isDisabled := False\<rparr>"
        and ?st0.0 = "mount_p0 id \<lparr>query_name = None, query_description = None\<rparr>"]
    by (simp add: recording_def)
  show ?thesis
    using en a b by (simp only: append_Nil simp_thms)
qed

section \<open>Description changes\<close>

text \<open>
  C6. A description change writes the new value to the description cell and passes it
  to \<open>handleDescription\<close>, once, and to no other callback; the label, the
  materialization choice and the disabled flag keep their values.
\<close>

theorem description_change_frame:
  "onDescriptionChange p v st w = (st\<lparr>description := v\<rparr>, handleDescription p v w)
   \<and> description (fst (onDescriptionChange p v st w)) = v
   \<and> label (fst (onDescriptionChange p v st w)) = label st
   \<and> materializationNumRadio (fst (onDescriptionChange p v st w)) = materializationNumRadio st
   \<and> isDisabled (fst (onDescriptionChange p v st w)) = isDisabled st
   \<and> step p (DescriptionChange v) (st, w) = (st\<lparr>description := v\<rparr>, handleDescription p v w)
   \<and> snd (onDescriptionChange (recording async) v st calls) = calls @ [HandleDescription v]"
  by (simp add: onDescriptionChange_def recording_def)

section \<open>Outbound propagation of the fields\<close>

text \<open>
  C7. In both variants a label change calls \<open>handleModelName\<close> with the new value and a
  description change calls \<open>handleDescription\<close> with the new value, for every value,
  whether or not it passes \<open>regexCheck\<close>; with recording callbacks that call is the only
  one added.
\<close>

theorem setters_called_on_every_change:
  "snd (onLabelChange p v st w) = handleModelName p v w
   \<and> snd (onDescriptionChange p v st w) = handleDescription p v w
   \<and> snd (onLabelChange_p0 p v st0 w) = handleModelName p v w
   \<and> snd (onDescriptionChange_p0 p v st0 w) = handleDescription p v w
   \<and> snd (onLabelChange (recording async) v st calls) = calls @ [HandleModelName v]
   \<and> snd (onDescriptionChange (recording async) v st calls) = calls @ [HandleDescription v]
   \<and> snd (onLabelChange_p0 (recording async) v st0 calls) = calls @ [HandleModelName v]
   \<and> snd (onDescriptionChange_p0 (recording async) v st0 calls) = calls @ [HandleDescription v]"
  by (simp add: onLabelChange_def onDescriptionChange_def onLabelChange_p0_def
      onDescriptionChange_p0_def recording_def)


section \<open>Materialization choice\<close>

text \<open>
  C3. The radios carry the codes 1, 2, 3 (and 4 in the variant that offers Ephemeral).
  Selecting the radio with code \<open>k\<close> sets the displayed selection to \<open>k\<close> and calls
  \<open>handleMaterializationNum\<close> with \<open>k\<close>, once, in the same event: no later event is
  needed for the call.
\<close>

theorem radio_selection_forwarded_once:
  "map fst radios = [1, 2, 3] \<and> map fst radios_p0 = [1, 2, 3, 4]
   \<and> (k \<in> set (map fst radios) \<longrightarrow>
        step p (RadioChange k) (st, w)
          = (st\<lparr>materializationNumRadio := k\<rparr>, handleMaterializationNum p k w)
        \<and> radio_value (render t p (fst (step p (RadioChange k) (st, w)))) = k
        \<and> snd (step (recording async) (RadioChange k) (st, calls))
            = calls @ [HandleMaterializationNum k])
   \<and> (k \<in> set (map fst radios_p0) \<longrightarrow>
        step_p0 log p (RadioChange k) (st0, w)
          = (st0\<lparr>materializationNumRadio := k\<rparr>,
             log (LogNumber k) (log (LogString (utf16 ''materialize num radio''))
               (handleMaterializationNum p k w)))
        \<and> radio_value (render_p0 t p (fst (step_p0 log p (RadioChange k) (st0, w)))) = k
        \<and> filter is_materialization_call
             (snd (step_p0 recording_log (recording async) (RadioChange k) (st0, calls)))
            = filter is_materialization_call calls @ [HandleMaterializationNum k])"
  by (simp add: radios_def radios_p0_def handleMaterializationNumRadio_def
      handleMaterializationNumRadio_p0_def render_def render_p0_def recording_def
      recording_log_def)

theorem radio_selection_forwarded_once_witness:
  "snd (step (recording False) (RadioChange 3)
        (mount id \<lparr>query_name = None, query_description = None\<rparr>, []))
     = [HandleMaterializationNum 3]
   \<and> fst (step_p0 recording_log (recording False) (RadioChange 4)
        (mount_p0 id \<lparr>query_name = None, query_description = None\<rparr>, []))
     = (mount_p0 id \<lparr>query_name = None, query_description = None\<rparr>)\<lparr>materializationNumRadio := 4\<rparr>"
proof -
  have a: "(3::int) \<in> set (map fst radios)"
    by (simp add: radios_def)
  have b: "(4::int) \<in> set (map fst radios_p0)"
    by (simp add: radios_p0_def)
  have c: "snd (step (recording False) (RadioChange 3)
        (mount id \<lparr>query_name = None, query_description = None\<rparr>, []))
     = [] @ [HandleMaterializationNum 3]"
    using a radio_selection_forwarded_once [where k = 3 and async = False and calls = "[]"
        and st = "mount id \<lparr>query_name = None, query_description = None\<rparr>"
        and p = "recording False" and w = "[]" and t = id and log = recording_log
        and ?st0.0 = "mount_p0 id \<lparr>query_name = None, query_description = None\<rparr>"]
    by blast
  have d: "step_p0 recording_log (recording False) (RadioChange 4)
        (mount_p0 id \<lparr>query_name = None, query_description = None\<rparr>, [])
     = ((mount_p0 id \<lparr>query_name = None, query_description = None\<rparr>)\<lparr>materializationNumRadio := 4\<rparr>,
        recording_log (LogNumber 4) (recording_log (LogString (utf16 ''materialize num radio''))
               (handleMaterializationNum (recording False) 4 [])))"
    using b radio_selection_forwarded_once [where k = 4 and async = False and calls = "[]"
        and st = "mount id \<lparr>query_name = None, query_description = None\<rparr>"
        and p = "recording False" and w = "[]" and t = id and log = recording_log
        and ?st0.0 = "mount_p0 id \<lparr>query_name = None, query_description = None\<rparr>"]
    by blast
  from c have c': "snd (step (recording False) (RadioChange 3)
        (mount id \<lparr>query_name = None, query_description = None\<rparr>, []))
     = [HandleMaterializationNum 3]"
    by (simp only: append_Nil)
  from d have d': "fst (step_p0 recording_log (recording False) (RadioChange 4)
        (mount_p0 id \<lparr>query_name = None, query_description = None\<rparr>, []))
     = (mount_p0 id \<lparr>query_name = None, query_description = None\<rparr>)\<lparr>materializationNumRadio := 4\<rparr>"
    by (simp only: fst_conv)
  from c' d' show ?thesis
    by (rule conjI)
qed

section \<open>Initial values\<close>

text \<open>
  C4. At the first render the label is the query's name when the name is present
  (defined and not empty, which is what \<open>||\<close> tests), else the query's description when
  that is present, else the translation of \<open>Undefined\<close>; the description field is the
  query's description, and the empty string when the query has none. Both variants
  agree.
\<close>

theorem initial_label_and_description:
  "(\<forall>n. query_name q = Some n \<and> n \<noteq> [] \<longrightarrow> label (mount t q) = n)
   \<and> (\<forall>d. \<not> truthy (query_name q) \<and> query_description q = Some d \<and> d \<noteq> []
          \<longrightarrow> label (mount t q) = d)
   \<and> (\<not> truthy (query_name q) \<and> \<not> truthy (query_description q)
          \<longrightarrow> label (mount t q) = t (utf16 ''Undefined''))
   \<and> (\<forall>d. query_description q = Some d \<longrightarrow> description (mount t q) = d)
   \<and> (query_description q = None \<longrightarrow> description (mount t q) = [])
   \<and> label (mount_p0 t q) = label (mount t q)
   \<and> description (mount_p0 t q) = description (mount t q)"
  by (auto simp: mount_def mount_p0_def defaultLabel_def js_or_def js_or_string_def truthy_def
      split: option.splits)

theorem initial_label_and_description_witness:
  "label (mount id \<lparr>query_name = Some (utf16 ''q1''), query_description = Some (utf16 ''d'')\<rparr>) = utf16 ''q1''
   \<and> label (mount id \<lparr>query_name = Some [], query_description = Some (utf16 ''d'')\<rparr>) = utf16 ''d''
   \<and> label (mount id \<lparr>query_name = None, query_description = None\<rparr>) = utf16 ''Undefined''
   \<and> description (mount id \<lparr>query_name = Some (utf16 ''q1''), query_description = Some (utf16 ''d'')\<rparr>) = utf16 ''d''
   \<and> description (mount id \<lparr>query_name = None, query_description = None\<rparr>) = []"
proof -
  have ne: "utf16 ''q1'' \<noteq> []" "utf16 ''d'' \<noteq> []"
    by (simp_all add: utf16_def)
  show ?thesis
    using ne
      initial_label_and_description [of "\<lparr>query_name = Some (utf16 ''q1''), query_description = Some (utf16 ''d'')\<rparr>" id]
      initial_label_and_description [of "\<lparr>query_name = Some [], query_description = Some (utf16 ''d'')\<rparr>" id]
      initial_label_and_description [of "\<lparr>query_name = None, query_description = None\<rparr>" id]
    by (simp add: truthy_def)
qed


section \<open>The disabled flag along a session\<close>

lemma isDisabled_step:
  "isDisabled (fst (step p ev (st, w)))
     = (case ev of LabelChange v \<Rightarrow> \<not> regex_test regexCheck v | _ \<Rightarrow> isDisabled st)"
  by (cases ev)
     (simp_all add: onLabelChange_def onDescriptionChange_def handleMaterializationNumRadio_def
       onClick_def)

lemma enabled_after_steps:
  "\<not> isDisabled (fst (steps p evs (st, w)))
     \<Longrightarrow> \<not> isDisabled st \<or> (\<exists>v. LabelChange v \<in> set evs \<and> regex_test regexCheck v)"
proof (induction evs arbitrary: st w)
  case Nil
  then show ?case by simp
next
  case (Cons ev evs)
  obtain st' w' where s: "step p ev (st, w) = (st', w')"
    by (cases "step p ev (st, w)")
  with Cons.prems have "\<not> isDisabled (fst (steps p evs (st', w')))"
    by simp
  from Cons.IH [OF this]
  consider "\<not> isDisabled st'" | "\<exists>v. LabelChange v \<in> set evs \<and> regex_test regexCheck v"
    by blast
  then show ?case
  proof cases
    case 1
    have "isDisabled st' = (case ev of LabelChange v \<Rightarrow> \<not> regex_test regexCheck v | _ \<Rightarrow> isDisabled st)"
      using isDisabled_step [of p ev st w] s by simp
    with 1 show ?thesis
      by (cases ev) auto
  next
    case 2
    then show ?thesis by auto
  qed
qed

text \<open>
  C5. In the validated variant the submit button is disabled at the first render,
  whatever the default label is, also when it passes \<open>regexCheck\<close>. A single event
  enables a disabled button only if it is a label change to a value that passes, and so
  in every state reached from the first render an enabled button implies that such a
  label change has occurred.
\<close>

theorem submit_enabled_only_by_valid_label_change:
  "isDisabled (mount t q) \<and> submit_disabled (render t p (mount t q))
   \<and> (isDisabled st \<and> \<not> isDisabled (fst (step p ev (st, w)))
        \<longrightarrow> (\<exists>v. ev = LabelChange v \<and> regex_test regexCheck v))
   \<and> (\<not> isDisabled (fst (steps p evs (mount t q, w)))
        \<longrightarrow> (\<exists>v. LabelChange v \<in> set evs \<and> regex_test regexCheck v))
   \<and> (\<not> submit_disabled (render t p (fst (steps p evs (mount t q, w))))
        \<longrightarrow> (\<exists>v. LabelChange v \<in> set evs \<and> regex_test regexCheck v))"
proof -
  have m: "isDisabled (mount t q)"
    by (simp add: mount_def)
  have one: "isDisabled st \<and> \<not> isDisabled (fst (step p ev (st, w)))
        \<longrightarrow> (\<exists>v. ev = LabelChange v \<and> regex_test regexCheck v)"
    unfolding isDisabled_step by (cases ev) simp_all
  have many: "\<not> isDisabled (fst (steps p evs (mount t q, w)))
        \<longrightarrow> (\<exists>v. LabelChange v \<in> set evs \<and> regex_test regexCheck v)"
    using enabled_after_steps [of p evs "mount t q" w] m by blast
  show ?thesis
    using m one many by (simp add: render_def)
qed

theorem submit_enabled_only_by_valid_label_change_witness:
  "regex_test regexCheck (label (mount id \<lparr>query_name = Some (utf16 ''model_1''), query_description = None\<rparr>))
   \<and> isDisabled (mount id \<lparr>query_name = Some (utf16 ''model_1''), query_description = None\<rparr>)
   \<and> \<not> isDisabled (fst (step (recording True) (LabelChange (utf16 ''m2'')) (mount id \<lparr>query_name = Some (utf16 ''model_1''), query_description = None\<rparr>, [])))
   \<and> (\<exists>v. LabelChange (utf16 ''m2'') = LabelChange v \<and> regex_test regexCheck v)
   \<and> \<not> isDisabled (fst (steps (recording True) [LabelChange (utf16 ''m2''), DescriptionChange (utf16 ''d'')] (mount id \<lparr>query_name = Some (utf16 ''model_1''), query_description = None\<rparr>, [])))
   \<and> \<not> submit_disabled (render id (recording True)
          (fst (steps (recording True) [LabelChange (utf16 ''m2''), DescriptionChange (utf16 ''d'')] (mount id \<lparr>query_name = Some (utf16 ''model_1''), query_description = None\<rparr>, []))))
   \<and> (\<exists>v. LabelChange v \<in> set [LabelChange (utf16 ''m2''), DescriptionChange (utf16 ''d'')] \<and> regex_test regexCheck v)"
proof -
  note T = submit_enabled_only_by_valid_label_change [where t = id and p = "recording True"
        and q = "\<lparr>query_name = Some (utf16 ''model_1''), query_description = None\<rparr>" and evs = "[LabelChange (utf16 ''m2''), DescriptionChange (utf16 ''d'')]" and w = "[]" and ev = "LabelChange (utf16 ''m2'')"
        and st = "mount id \<lparr>query_name = Some (utf16 ''model_1''), query_description = None\<rparr>"]
  have ok1: "regex_test regexCheck (utf16 ''model_1'')"
    by (simp add: regexCheck_test spec_label_ok_def spec_label_char_def utf16_def cu_def)
  have ok2: "regex_test regexCheck (utf16 ''m2'')"
    by (simp add: regexCheck_test spec_label_ok_def spec_label_char_def utf16_def cu_def)
  have ne: "utf16 ''model_1'' \<noteq> []"
    by (simp add: utf16_def)
  have lab: "regex_test regexCheck (label (mount id \<lparr>query_name = Some (utf16 ''model_1''), query_description = None\<rparr>))"
    using ne ok1 by (simp add: mount_def defaultLabel_def js_or_def js_or_string_def truthy_def)
  have dis: "isDisabled (mount id \<lparr>query_name = Some (utf16 ''model_1''), query_description = None\<rparr>)"
    using T by blast
  have en1: "\<not> isDisabled (fst (step (recording True) (LabelChange (utf16 ''m2'')) (mount id \<lparr>query_name = Some (utf16 ''model_1''), query_description = None\<rparr>, [])))"
    using ok2 by (simp add: onLabelChange_def)
  have ex1: "\<exists>v. LabelChange (utf16 ''m2'') = LabelChange v \<and> regex_test regexCheck v"
    using dis en1 T by blast
  have en: "\<not> isDisabled (fst (steps (recording True) [LabelChange (utf16 ''m2''), DescriptionChange (utf16 ''d'')] (mount id \<lparr>query_name = Some (utf16 ''model_1''), query_description = None\<rparr>, [])))"
    using ok2 by (simp add: onLabelChange_def onDescriptionChange_def)
  have enr: "\<not> submit_disabled (render id (recording True)
          (fst (steps (recording True) [LabelChange (utf16 ''m2''), DescriptionChange (utf16 ''d'')] (mount id \<lparr>query_name = Some (utf16 ''model_1''), query_description = None\<rparr>, []))))"
    using en by (simp add: render_def)
  have ex2: "\<exists>v. LabelChange v \<in> set [LabelChange (utf16 ''m2''), DescriptionChange (utf16 ''d'')] \<and> regex_test regexCheck v"
    using enr T by blast
  show ?thesis
    using lab dis en1 ex1 en enr ex2 by (intro conjI)
qed

section \<open>Materialization calls along a session\<close>

lemma step_keeps_materialization_calls:
  "(\<forall>k. ev \<noteq> RadioChange k)
     \<Longrightarrow> filter is_materialization_call (snd (step (recording a) ev (st, calls)))
         = filter is_materialization_call calls"
  by (cases ev)
     (simp_all add: onLabelChange_def onDescriptionChange_def onClick_def onClickModel_def
       recording_def Let_def)

lemma steps_keep_materialization_calls:
  "(\<forall>k. RadioChange k \<notin> set evs)
     \<Longrightarrow> filter is_materialization_call (snd (steps (recording a) evs (st, calls)))
         = filter is_materialization_call calls"
proof (induction evs arbitrary: st calls)
  case Nil
  show ?case by simp
next
  case (Cons ev evs)
  obtain st' calls' where s: "step (recording a) ev (st, calls) = (st', calls')"
    by (cases "step (recording a) ev (st, calls)")
  have "\<forall>k. ev \<noteq> RadioChange k"
    using Cons.prems by auto
  then have "filter is_materialization_call calls' = filter is_materialization_call calls"
    using step_keeps_materialization_calls [of ev a st calls] s by simp
  moreover have "filter is_materialization_call (snd (steps (recording a) evs (st', calls')))
      = filter is_materialization_call calls'"
    using Cons.prems by (intro Cons.IH) auto
  ultimately show ?case
    using s by simp
qed

lemma step_p0_keeps_materialization_calls:
  "(\<forall>k. ev \<noteq> RadioChange k)
     \<Longrightarrow> filter is_materialization_call (snd (step_p0 recording_log (recording a) ev (st, calls)))
         = filter is_materialization_call calls"
  by (cases ev)
     (simp_all add: onLabelChange_p0_def onDescriptionChange_p0_def onClick_p0_def
       onClickModel_p0_def recording_def recording_log_def Let_def)

lemma steps_p0_keep_materialization_calls:
  "(\<forall>k. RadioChange k \<notin> set evs)
     \<Longrightarrow> filter is_materialization_call (snd (steps_p0 recording_log (recording a) evs (st, calls)))
         = filter is_materialization_call calls"
proof (induction evs arbitrary: st calls)
  case Nil
  show ?case by simp
next
  case (Cons ev evs)
  obtain st' calls' where s: "step_p0 recording_log (recording a) ev (st, calls) = (st', calls')"
    by (cases "step_p0 recording_log (recording a) ev (st, calls)")
  have "\<forall>k. ev \<noteq> RadioChange k"
    using Cons.prems by auto
  then have "filter is_materialization_call calls' = filter is_materialization_call calls"
    using step_p0_keeps_materialization_calls [of ev a st calls] s by simp
  moreover have "filter is_materialization_call
        (snd (steps_p0 recording_log (recording a) evs (st', calls')))
      = filter is_materialization_call calls'"
    using Cons.prems by (intro Cons.IH) auto
  ultimately show ?case
    using s by simp
qed

text \<open>
  C10. The first render makes no call at all, so the initial choice 1 is not passed to
  \<open>handleMaterializationNum\<close>. An event adds a call of \<open>handleMaterializationNum\<close> only if
  it is a radio change, and a session without a radio change contains no such call, in
  both variants.
\<close>

theorem no_materialization_call_before_selection:
  "materializationNumRadio (mount t q) = 1 \<and> materializationNumRadio (mount_p0 t q) = 1
   \<and> snd (steps (recording async) [] (mount t q, [])) = []
   \<and> snd (steps_p0 recording_log (recording async) [] (mount_p0 t q, [])) = []
   \<and> (filter is_materialization_call (snd (step (recording async) ev (st, calls)))
          \<noteq> filter is_materialization_call calls \<longrightarrow> (\<exists>k. ev = RadioChange k))
   \<and> (filter is_materialization_call (snd (step_p0 recording_log (recording async) ev (st0, calls)))
          \<noteq> filter is_materialization_call calls \<longrightarrow> (\<exists>k. ev = RadioChange k))
   \<and> ((\<forall>k. RadioChange k \<notin> set evs) \<longrightarrow>
         (\<forall>c \<in> set (snd (steps (recording async) evs (mount t q, []))).
            \<not> is_materialization_call c)
       \<and> (\<forall>c \<in> set (snd (steps_p0 recording_log (recording async) evs (mount_p0 t q, []))).
            \<not> is_materialization_call c))"
proof -
  have a: "(\<forall>k. RadioChange k \<notin> set evs) \<longrightarrow>
      filter is_materialization_call (snd (steps (recording async) evs (mount t q, []))) = []"
    using steps_keep_materialization_calls [of evs async "mount t q" "[]"] by simp
  have b: "(\<forall>k. RadioChange k \<notin> set evs) \<longrightarrow>
      filter is_materialization_call
        (snd (steps_p0 recording_log (recording async) evs (mount_p0 t q, []))) = []"
    using steps_p0_keep_materialization_calls [of evs async "mount_p0 t q" "[]"] by simp
  have c: "filter is_materialization_call (snd (step (recording async) ev (st, calls)))
          \<noteq> filter is_materialization_call calls \<longrightarrow> (\<exists>k. ev = RadioChange k)"
    using step_keeps_materialization_calls [of ev async st calls] by blast
  have d: "filter is_materialization_call (snd (step_p0 recording_log (recording async) ev (st0, calls)))
          \<noteq> filter is_materialization_call calls \<longrightarrow> (\<exists>k. ev = RadioChange k)"
    using step_p0_keeps_materialization_calls [of ev async st0 calls] by blast
  show ?thesis
    using a b c d by (simp add: mount_def mount_p0_def filter_empty_conv)
qed

theorem no_materialization_call_before_selection_witness:
  "(\<forall>k. RadioChange k \<notin> set [LabelChange (utf16 ''m2''), SubmitClick, DescriptionChange (utf16 ''d'')])
   \<and> filter is_materialization_call (snd (steps (recording True) [LabelChange (utf16 ''m2''), SubmitClick, DescriptionChange (utf16 ''d'')] (mount id \<lparr>query_name = None, query_description = None\<rparr>, []))) = []
   \<and> filter is_materialization_call
        (snd (steps_p0 recording_log (recording True) [LabelChange (utf16 ''m2''), SubmitClick, DescriptionChange (utf16 ''d'')] (mount_p0 id \<lparr>query_name = None, query_description = None\<rparr>, []))) = []
   \<and> filter is_materialization_call (snd (step (recording True) (RadioChange 2) (mount id \<lparr>query_name = None, query_description = None\<rparr>, [])))
        \<noteq> filter is_materialization_call []
   \<and> filter is_materialization_call
        (snd (step_p0 recording_log (recording True) (RadioChange 2) (mount_p0 id \<lparr>query_name = None, query_description = None\<rparr>, [])))
        \<noteq> filter is_materialization_call []
   \<and> (\<exists>k. RadioChange 2 = RadioChange k)"
proof -
  note T = no_materialization_call_before_selection [where t = id and async = True
        and q = "\<lparr>query_name = None, query_description = None\<rparr>" and evs = "[LabelChange (utf16 ''m2''), SubmitClick, DescriptionChange (utf16 ''d'')]" and ev = "RadioChange 2" and calls = "[]"
        and st = "mount id \<lparr>query_name = None, query_description = None\<rparr>" and ?st0.0 = "mount_p0 id \<lparr>query_name = None, query_description = None\<rparr>"]
  have h: "\<forall>k. RadioChange k \<notin> set [LabelChange (utf16 ''m2''), SubmitClick, DescriptionChange (utf16 ''d'')]"
    by simp
  have "(\<forall>c \<in> set (snd (steps (recording True) [LabelChange (utf16 ''m2''), SubmitClick, DescriptionChange (utf16 ''d'')] (mount id \<lparr>query_name = None, query_description = None\<rparr>, []))).
           \<not> is_materialization_call c)
      \<and> (\<forall>c \<in> set (snd (steps_p0 recording_log (recording True) [LabelChange (utf16 ''m2''), SubmitClick, DescriptionChange (utf16 ''d'')] (mount_p0 id \<lparr>query_name = None, query_description = None\<rparr>, []))).
           \<not> is_materialization_call c)"
    using h T by blast
  then have none: "filter is_materialization_call
        (snd (steps (recording True) [LabelChange (utf16 ''m2''), SubmitClick, DescriptionChange (utf16 ''d'')] (mount id \<lparr>query_name = None, query_description = None\<rparr>, []))) = []"
      "filter is_materialization_call
        (snd (steps_p0 recording_log (recording True) [LabelChange (utf16 ''m2''), SubmitClick, DescriptionChange (utf16 ''d'')] (mount_p0 id \<lparr>query_name = None, query_description = None\<rparr>, []))) = []"
    unfolding filter_empty_conv by blast+
  have r1: "filter is_materialization_call
        (snd (step (recording True) (RadioChange 2) (mount id \<lparr>query_name = None, query_description = None\<rparr>, [])))
        \<noteq> filter is_materialization_call []"
    by (simp add: radios_def handleMaterializationNumRadio_def recording_def)
  have r2: "filter is_materialization_call
        (snd (step_p0 recording_log (recording True) (RadioChange 2) (mount_p0 id \<lparr>query_name = None, query_description = None\<rparr>, [])))
        \<noteq> filter is_materialization_call []"
    by (simp add: radios_p0_def handleMaterializationNumRadio_p0_def recording_def
        recording_log_def)
  have ex: "\<exists>k. RadioChange 2 = RadioChange k"
    using r1 r2 T by blast
  show ?thesis
    using h none r1 r2 ex by (intro conjI)
qed

section \<open>The two variants\<close>

lemma step_simulation:
  "ev \<noteq> RadioChange 4 \<Longrightarrow> (ev = SubmitClick \<longrightarrow> \<not> isDisabled st)
     \<Longrightarrow> step_p0 (\<lambda>a w. w) p ev (form_state.truncate st, w)
         = (form_state.truncate (fst (step p ev (st, w))), snd (step p ev (st, w)))"
  by (cases ev)
     (auto simp: form_state.truncate_def radios_def radios_p0_def
       onLabelChange_def onLabelChange_p0_def onDescriptionChange_def onDescriptionChange_p0_def
       handleMaterializationNumRadio_def handleMaterializationNumRadio_p0_def
       onClick_def onClick_p0_def onClickModel_def onClickModel_p0_def Let_def)

lemma steps_simulation:
  "RadioChange 4 \<notin> set evs
     \<Longrightarrow> (\<forall>n < length evs. evs ! n = SubmitClick
            \<longrightarrow> \<not> isDisabled (fst (steps p (take n evs) (st, w))))
     \<Longrightarrow> steps_p0 (\<lambda>a w. w) p evs (form_state.truncate st, w)
         = (form_state.truncate (fst (steps p evs (st, w))), snd (steps p evs (st, w)))"
proof (induction evs arbitrary: st w)
  case Nil
  show ?case by simp
next
  case (Cons ev evs)
  obtain st' w' where s: "step p ev (st, w) = (st', w')"
    by (cases "step p ev (st, w)")
  have gate: "ev = SubmitClick \<longrightarrow> \<not> isDisabled st"
    using Cons.prems(2) [rule_format, of 0] by simp
  have ne: "ev \<noteq> RadioChange 4"
    using Cons.prems(1) by auto
  have one: "step_p0 (\<lambda>a w. w) p ev (form_state.truncate st, w) = (form_state.truncate st', w')"
    using step_simulation [OF ne gate, of p w] s by simp
  have later: "\<forall>n < length evs. evs ! n = SubmitClick
            \<longrightarrow> \<not> isDisabled (fst (steps p (take n evs) (st', w')))"
  proof (intro allI impI)
    fix n assume "n < length evs" "evs ! n = SubmitClick"
    then show "\<not> isDisabled (fst (steps p (take n evs) (st', w')))"
      using Cons.prems(2) [rule_format, of "Suc n"] s by simp
  qed
  have "steps_p0 (\<lambda>a w. w) p evs (form_state.truncate st', w')
         = (form_state.truncate (fst (steps p evs (st', w'))), snd (steps p evs (st', w')))"
    using Cons.prems(1) later by (intro Cons.IH) auto
  then show ?case
    using one s by simp
qed

text \<open>
  C8. The variant without validation, with \<open>console.log\<close> made silent, does what the
  validated variant does: the same initial label, description and choice, and for
  every event other than the selection of Ephemeral (4) and a click that the disabled
  flag blocks, the same state cells and the same effect on the world, also along whole
  sessions; what is rendered differs in the disabled flag of the button and the fourth
  radio only. The three differences are there: the disabled button ignores a click that
  the other variant runs; \<open>radios_p0\<close> has the fourth option, which only that variant
  handles; and only that variant calls \<open>console.log\<close> (in \<open>onClickModel\<close> and in
  \<open>handleMaterializationNumRadio\<close>).
\<close>

theorem variants_differ_in_gate_option_print_only:
  "form_state.truncate (mount t q) = mount_p0 t q
   \<and> (ev \<noteq> RadioChange 4 \<and> (ev = SubmitClick \<longrightarrow> \<not> isDisabled st)
        \<longrightarrow> step_p0 (\<lambda>a w. w) p ev (form_state.truncate st, w)
            = (form_state.truncate (fst (step p ev (st, w))), snd (step p ev (st, w))))
   \<and> (RadioChange 4 \<notin> set evs
        \<and> (\<forall>n < length evs. evs ! n = SubmitClick
              \<longrightarrow> \<not> isDisabled (fst (steps p (take n evs) (st, w))))
        \<longrightarrow> steps_p0 (\<lambda>a w. w) p evs (form_state.truncate st, w)
            = (form_state.truncate (fst (steps p evs (st, w))), snd (steps p evs (st, w))))
   \<and> render_p0 t p (form_state.truncate st)
       = (render t p st)\<lparr>submit_disabled := False,
            radio_options := radio_options (render t p st) @ [(4, t (utf16 ''Ephemereal''))]\<rparr>
   \<and> (isDisabled st \<longrightarrow> step p SubmitClick (st, w) = (st, w))
   \<and> step_p0 log p SubmitClick (st0, w)
       = (st0, onHide p (runQueryModel p (allowAsync p)
                 (log (LogString (utf16 ''run query model click'')) w)))
   \<and> radios_p0 = radios @ [(4, ''Ephemereal'')]
   \<and> step p (RadioChange 4) (st, w) = (st, w)
   \<and> step_p0 log p (RadioChange 4) (st0, w)
       = (st0\<lparr>materializationNumRadio := 4\<rparr>,
          log (LogNumber 4) (log (LogString (utf16 ''materialize num radio''))
            (handleMaterializationNum p 4 w)))
   \<and> (\<forall>c \<in> set (snd (step (recording async) ev (st, []))). \<not> is_console_log c)"
proof -
  have a: "form_state.truncate (mount t q) = mount_p0 t q"
    by (simp add: form_state.truncate_def mount_def mount_p0_def)
  have b: "ev \<noteq> RadioChange 4 \<and> (ev = SubmitClick \<longrightarrow> \<not> isDisabled st)
        \<longrightarrow> step_p0 (\<lambda>a w. w) p ev (form_state.truncate st, w)
            = (form_state.truncate (fst (step p ev (st, w))), snd (step p ev (st, w)))"
    using step_simulation [of ev st p w] by blast
  have c: "RadioChange 4 \<notin> set evs
        \<and> (\<forall>n < length evs. evs ! n = SubmitClick
              \<longrightarrow> \<not> isDisabled (fst (steps p (take n evs) (st, w))))
        \<longrightarrow> steps_p0 (\<lambda>a w. w) p evs (form_state.truncate st, w)
            = (form_state.truncate (fst (steps p evs (st, w))), snd (steps p evs (st, w)))"
    using steps_simulation [of evs p st w] by blast
  have d: "render_p0 t p (form_state.truncate st)
       = (render t p st)\<lparr>submit_disabled := False,
            radio_options := radio_options (render t p st) @ [(4, t (utf16 ''Ephemereal''))]\<rparr>"
    by (simp add: render_def render_p0_def radios_def radios_p0_def form_state.truncate_def)
  have e: "step_p0 log p SubmitClick (st0, w)
       = (st0, onHide p (runQueryModel p (allowAsync p)
                 (log (LogString (utf16 ''run query model click'')) w)))"
    by (simp add: onClick_p0_def onClickModel_p0_def Let_def)
  have f: "radios_p0 = radios @ [(4, ''Ephemereal'')]" "step p (RadioChange 4) (st, w) = (st, w)"
    by (simp_all add: radios_def radios_p0_def)
  have g: "step_p0 log p (RadioChange 4) (st0, w)
       = (st0\<lparr>materializationNumRadio := 4\<rparr>,
          log (LogNumber 4) (log (LogString (utf16 ''materialize num radio''))
            (handleMaterializationNum p 4 w)))"
    by (simp add: radios_p0_def handleMaterializationNumRadio_p0_def)
  have h: "\<forall>c \<in> set (snd (step (recording async) ev (st, []))). \<not> is_console_log c"
    by (cases ev)
       (simp_all add: onLabelChange_def onDescriptionChange_def handleMaterializationNumRadio_def
         onClick_def onClickModel_def recording_def Let_def)
  show ?thesis
    using a b c d e f g h by simp
qed

theorem variants_differ_in_gate_option_print_only_witness:
  "steps_p0 (\<lambda>a w. w) (recording True) [LabelChange (utf16 ''m2''), RadioChange 2, SubmitClick] (form_state.truncate (mount id \<lparr>query_name = None, query_description = None\<rparr>), [])
     = (form_state.truncate (fst (steps (recording True) [LabelChange (utf16 ''m2''), RadioChange 2, SubmitClick] (mount id \<lparr>query_name = None, query_description = None\<rparr>, []))),
        [HandleModelName (utf16 ''m2''), HandleMaterializationNum 2, RunQueryModel True, OnHide])
   \<and> step_p0 (\<lambda>a w. w) (recording True) (DescriptionChange (utf16 ''d''))
        (form_state.truncate (mount id \<lparr>query_name = None, query_description = None\<rparr>), [])
     = (form_state.truncate
          (fst (step (recording True) (DescriptionChange (utf16 ''d'')) (mount id \<lparr>query_name = None, query_description = None\<rparr>, []))),
        snd (step (recording True) (DescriptionChange (utf16 ''d'')) (mount id \<lparr>query_name = None, query_description = None\<rparr>, [])))
   \<and> isDisabled (mount id \<lparr>query_name = None, query_description = None\<rparr>)
   \<and> step (recording True) SubmitClick (mount id \<lparr>query_name = None, query_description = None\<rparr>, []) = (mount id \<lparr>query_name = None, query_description = None\<rparr>, [])"
proof -
  note T = variants_differ_in_gate_option_print_only [where t = id and p = "recording True"
        and q = "\<lparr>query_name = None, query_description = None\<rparr>" and evs = "[LabelChange (utf16 ''m2''), RadioChange 2, SubmitClick]" and w = "[]" and ev = "DescriptionChange (utf16 ''d'')"
        and log = recording_log and async = True
        and st = "mount id \<lparr>query_name = None, query_description = None\<rparr>" and ?st0.0 = "mount_p0 id \<lparr>query_name = None, query_description = None\<rparr>"]
  have ok2: "regex_test regexCheck (utf16 ''m2'')"
    by (simp add: regexCheck_test spec_label_ok_def spec_label_char_def utf16_def cu_def)
  have h1: "RadioChange 4 \<notin> set [LabelChange (utf16 ''m2''), RadioChange 2, SubmitClick]"
    by simp
  have h2: "\<forall>n < length [LabelChange (utf16 ''m2''), RadioChange 2, SubmitClick].
      [LabelChange (utf16 ''m2''), RadioChange 2, SubmitClick] ! n = SubmitClick
        \<longrightarrow> \<not> isDisabled (fst (steps (recording True) (take n [LabelChange (utf16 ''m2''), RadioChange 2, SubmitClick]) (mount id \<lparr>query_name = None, query_description = None\<rparr>, [])))"
  proof (intro allI impI)
    fix n
    assume n: "n < length [LabelChange (utf16 ''m2''), RadioChange 2, SubmitClick]"
      and c: "[LabelChange (utf16 ''m2''), RadioChange 2, SubmitClick] ! n = SubmitClick"
    from n have "n = 0 \<or> n = 1 \<or> n = 2"
      by auto
    with c have "n = 2"
      by auto
    then show "\<not> isDisabled (fst (steps (recording True) (take n [LabelChange (utf16 ''m2''), RadioChange 2, SubmitClick]) (mount id \<lparr>query_name = None, query_description = None\<rparr>, [])))"
      using ok2
      by (simp add: numeral_2_eq_2 onLabelChange_def handleMaterializationNumRadio_def radios_def)
  qed
  have tr: "snd (steps (recording True) [LabelChange (utf16 ''m2''), RadioChange 2, SubmitClick] (mount id \<lparr>query_name = None, query_description = None\<rparr>, []))
      = [HandleModelName (utf16 ''m2''), HandleMaterializationNum 2, RunQueryModel True, OnHide]"
    using ok2
    by (simp add: onLabelChange_def handleMaterializationNumRadio_def radios_def onClick_def
        onClickModel_def recording_def Let_def)
  have "steps_p0 (\<lambda>a w. w) (recording True) [LabelChange (utf16 ''m2''), RadioChange 2, SubmitClick] (form_state.truncate (mount id \<lparr>query_name = None, query_description = None\<rparr>), [])
     = (form_state.truncate (fst (steps (recording True) [LabelChange (utf16 ''m2''), RadioChange 2, SubmitClick] (mount id \<lparr>query_name = None, query_description = None\<rparr>, []))),
        snd (steps (recording True) [LabelChange (utf16 ''m2''), RadioChange 2, SubmitClick] (mount id \<lparr>query_name = None, query_description = None\<rparr>, [])))"
    using h1 h2 T by blast
  then have sim: "steps_p0 (\<lambda>a w. w) (recording True) [LabelChange (utf16 ''m2''), RadioChange 2, SubmitClick] (form_state.truncate (mount id \<lparr>query_name = None, query_description = None\<rparr>), [])
     = (form_state.truncate (fst (steps (recording True) [LabelChange (utf16 ''m2''), RadioChange 2, SubmitClick] (mount id \<lparr>query_name = None, query_description = None\<rparr>, []))),
        [HandleModelName (utf16 ''m2''), HandleMaterializationNum 2, RunQueryModel True, OnHide])"
    by (simp only: tr)
  have h3: "DescriptionChange (utf16 ''d'') \<noteq> RadioChange 4
      \<and> (DescriptionChange (utf16 ''d'') = SubmitClick \<longrightarrow> \<not> isDisabled (mount id \<lparr>query_name = None, query_description = None\<rparr>))"
    by simp
  have one: "step_p0 (\<lambda>a w. w) (recording True) (DescriptionChange (utf16 ''d''))
        (form_state.truncate (mount id \<lparr>query_name = None, query_description = None\<rparr>), [])
     = (form_state.truncate
          (fst (step (recording True) (DescriptionChange (utf16 ''d'')) (mount id \<lparr>query_name = None, query_description = None\<rparr>, []))),
        snd (step (recording True) (DescriptionChange (utf16 ''d'')) (mount id \<lparr>query_name = None, query_description = None\<rparr>, [])))"
    using h3 T by blast
  have dis: "isDisabled (mount id \<lparr>query_name = None, query_description = None\<rparr>)"
    by (simp add: mount_def)
  have blocked: "step (recording True) SubmitClick (mount id \<lparr>query_name = None, query_description = None\<rparr>, []) = (mount id \<lparr>query_name = None, query_description = None\<rparr>, [])"
    using dis T by blast
  show ?thesis
    using sim one dis blocked by (intro conjI)
qed

section \<open>The dataset update helper\<close>

text \<open>
  C9. \<open>updateDataset\<close> calls the client's \<open>put\<close> once, whether the call succeeds or
  fails: the request goes to \<open>api/v1/dataset/<dataset id>?override_columns=<flag>\<close>,
  declares JSON content, and its body is the JSON text of an object with exactly the
  fields \<open>sql\<close>, \<open>columns\<close>, \<open>owners\<close> and \<open>database_id\<close>, the last being the given
  database id. A response gives back the \<open>result\<close> field of its JSON; an error is given
  back unchanged, with no second request.
\<close>

theorem updateDataset_single_put:
  "snd (updateDataset (recording_put r) num_string stringify dbId datasetId sql columns owners
          overrideColumns log)
     = log @ [\<lparr>endpoint = utf16 ''api/v1/dataset/'' @ num_string datasetId
                  @ utf16 ''?override_columns=''
                  @ utf16 (if overrideColumns then ''true'' else ''false''),
               headers = [(utf16 ''Content-Type'', utf16 ''application/json'')],
               body = stringify (JObject
                   [(utf16 ''sql'', JString sql),
                    (utf16 ''columns'', JArray columns),
                    (utf16 ''owners'', JArray (map JNumber owners)),
                    (utf16 ''database_id'', JNumber dbId)])\<rparr>]
   \<and> (\<forall>d. r = Inr d \<longrightarrow>
          fst (updateDataset (recording_put r) num_string stringify dbId datasetId sql columns
                 owners overrideColumns log)
            = Inr (map_of (response_json d) (utf16 ''result'')))
   \<and> (\<forall>e. r = Inl e \<longrightarrow>
          fst (updateDataset (recording_put r) num_string stringify dbId datasetId sql columns
                 owners overrideColumns log)
            = Inl e)
   \<and> (\<forall>e. fst (put \<lparr>endpoint = utf16 ''api/v1/dataset/'' @ num_string datasetId
                  @ utf16 ''?override_columns=''
                  @ utf16 (if overrideColumns then ''true'' else ''false''),
               headers = [(utf16 ''Content-Type'', utf16 ''application/json'')],
               body = stringify (JObject
                   [(utf16 ''sql'', JString sql),
                    (utf16 ''columns'', JArray columns),
                    (utf16 ''owners'', JArray (map JNumber owners)),
                    (utf16 ''database_id'', JNumber dbId)])\<rparr> w) = Inl e
        \<longrightarrow> fst (updateDataset put num_string stringify dbId datasetId sql columns owners
                   overrideColumns w) = Inl e)
   \<and> snd (updateDataset put num_string stringify dbId datasetId sql columns owners
             overrideColumns w)
       = snd (put \<lparr>endpoint = utf16 ''api/v1/dataset/'' @ num_string datasetId
                  @ utf16 ''?override_columns=''
                  @ utf16 (if overrideColumns then ''true'' else ''false''),
               headers = [(utf16 ''Content-Type'', utf16 ''application/json'')],
               body = stringify (JObject
                   [(utf16 ''sql'', JString sql),
                    (utf16 ''columns'', JArray columns),
                    (utf16 ''owners'', JArray (map JNumber owners)),
                    (utf16 ''database_id'', JNumber dbId)])\<rparr> w)"
  by (auto simp: updateDataset_def recording_put_def Let_def split: prod.splits sum.splits)

theorem updateDataset_single_put_witness:
  "fst (updateDataset (recording_put (Inr \<lparr>response_json = [(utf16 ''id'', JNumber 7), (utf16 ''result'', JString (utf16 ''ok''))]\<rparr> :: unit + response)) (\<lambda>n. utf16 ''7'') (\<lambda>j. utf16 ''{}'') 1 7 (utf16 ''select 1'') [] [1] True [])
     = Inr (Some (JString (utf16 ''ok'')))
   \<and> fst (updateDataset (recording_put (Inl () :: unit + response)) (\<lambda>n. utf16 ''7'') (\<lambda>j. utf16 ''{}'') 1 7 (utf16 ''select 1'') [] [1] True []) = Inl ()
   \<and> length (snd (updateDataset (recording_put (Inl () :: unit + response)) (\<lambda>n. utf16 ''7'') (\<lambda>j. utf16 ''{}'') 1 7 (utf16 ''select 1'') [] [1] True [])) = 1
   \<and> length (snd (updateDataset (recording_put (Inr \<lparr>response_json = [(utf16 ''id'', JNumber 7), (utf16 ''result'', JString (utf16 ''ok''))]\<rparr> :: unit + response)) (\<lambda>n. utf16 ''7'') (\<lambda>j. utf16 ''{}'') 1 7 (utf16 ''select 1'') [] [1] True [])) = 1"
proof -
  note T1 = updateDataset_single_put [where r = "Inr \<lparr>response_json = [(utf16 ''id'', JNumber 7), (utf16 ''result'', JString (utf16 ''ok''))]\<rparr> :: unit + response"
        and num_string = "\<lambda>n. utf16 ''7''" and stringify = "\<lambda>j. utf16 ''{}''"
        and dbId = 1 and datasetId = 7 and sql = "utf16 ''select 1''" and columns = "[]"
        and owners = "[1]" and overrideColumns = True and log = "[]"
        and put = "recording_put (Inl () :: unit + response)" and w = "[]"]
  note T2 = updateDataset_single_put [where r = "Inl () :: unit + response"
        and num_string = "\<lambda>n. utf16 ''7''" and stringify = "\<lambda>j. utf16 ''{}''"
        and dbId = 1 and datasetId = 7 and sql = "utf16 ''select 1''" and columns = "[]"
        and owners = "[1]" and overrideColumns = True and log = "[]"
        and put = "recording_put (Inl () :: unit + response)" and w = "[]"]
  have k: "utf16 ''id'' \<noteq> utf16 ''result''"
    by (simp add: utf16_def)
  have "fst (updateDataset (recording_put (Inr \<lparr>response_json = [(utf16 ''id'', JNumber 7), (utf16 ''result'', JString (utf16 ''ok''))]\<rparr> :: unit + response)) (\<lambda>n. utf16 ''7'') (\<lambda>j. utf16 ''{}'') 1 7 (utf16 ''select 1'') [] [1] True [])
     = Inr (map_of (response_json \<lparr>response_json = [(utf16 ''id'', JNumber 7), (utf16 ''result'', JString (utf16 ''ok''))]\<rparr>) (utf16 ''result''))"
    using T1 by blast
  then have a: "fst (updateDataset (recording_put (Inr \<lparr>response_json = [(utf16 ''id'', JNumber 7), (utf16 ''result'', JString (utf16 ''ok''))]\<rparr> :: unit + response)) (\<lambda>n. utf16 ''7'') (\<lambda>j. utf16 ''{}'') 1 7 (utf16 ''select 1'') [] [1] True [])
     = Inr (Some (JString (utf16 ''ok'')))"
    using k by simp
  have b: "fst (updateDataset (recording_put (Inl () :: unit + response)) (\<lambda>n. utf16 ''7'') (\<lambda>j. utf16 ''{}'') 1 7 (utf16 ''select 1'') [] [1] True []) = Inl ()"
    using T2 by blast
  have rej: "fst (recording_put (Inl () :: unit + response) \<lparr>endpoint = utf16 ''api/v1/dataset/'' @ utf16 ''7''
                  @ utf16 ''?override_columns='' @ utf16 (if True then ''true'' else ''false''),
               headers = [(utf16 ''Content-Type'', utf16 ''application/json'')],
               body = utf16 ''{}''\<rparr> []) = Inl ()"
    by (simp add: recording_put_def)
  have b': "fst (updateDataset (recording_put (Inl () :: unit + response)) (\<lambda>n. utf16 ''7'') (\<lambda>j. utf16 ''{}'') 1 7 (utf16 ''select 1'') [] [1] True []) = Inl ()"
    using rej T1 by blast
  have c: "length (snd (updateDataset (recording_put (Inl () :: unit + response)) (\<lambda>n. utf16 ''7'') (\<lambda>j. utf16 ''{}'') 1 7 (utf16 ''select 1'') [] [1] True [])) = 1"
    using T2 by simp
  have d: "length (snd (updateDataset (recording_put (Inr \<lparr>response_json = [(utf16 ''id'', JNumber 7), (utf16 ''result'', JString (utf16 ''ok''))]\<rparr> :: unit + response)) (\<lambda>n. utf16 ''7'') (\<lambda>j. utf16 ''{}'') 1 7 (utf16 ''select 1'') [] [1] True [])) = 1"
    using T1 by simp
  show ?thesis
    using a b' c d by (intro conjI)
qed

end
